theory Spec2Isabelle
  imports Complex_Main "HOL-Library.Word"
begin

unbundle bit_operations_syntax

section \<open>Data model of the ADT7320 driver (adt7320.h)\<close>

type_synonym u8 = "8 word"
type_synonym u16 = "16 word"
type_synonym u32 = "32 word"

text \<open>
  \<^verbatim>\<open>ADT7320_StatusTypeDef\<close> (adt7320.h, lines 157-163) with its enumerator values.
\<close>

datatype ADT7320_StatusTypeDef = ADT7320_OK | ADT7320_ERROR | ADT7320_BUSY | ADT7320_TIMEOUT

fun status_value :: "ADT7320_StatusTypeDef \<Rightarrow> nat" where
  "status_value ADT7320_OK = 0"
| "status_value ADT7320_ERROR = 1"
| "status_value ADT7320_BUSY = 2"
| "status_value ADT7320_TIMEOUT = 3"

text \<open>
  Modelled from the spec: \<^verbatim>\<open>HAL_StatusTypeDef\<close> is declared in the STM32 HAL headers, which
  are not part of the sources. The spec gives the transport the same closed set of
  outcomes as the driver (success, error, busy, timeout), passed through opaquely; the
  HAL numbers them 0, 1, 2, 3 in that order.
\<close>

datatype HAL_StatusTypeDef = HAL_OK | HAL_ERROR | HAL_BUSY | HAL_TIMEOUT

fun hal_status_value :: "HAL_StatusTypeDef \<Rightarrow> nat" where
  "hal_status_value HAL_OK = 0"
| "hal_status_value HAL_ERROR = 1"
| "hal_status_value HAL_BUSY = 2"
| "hal_status_value HAL_TIMEOUT = 3"

text \<open>
  The cast \<^verbatim>\<open>(ADT7320_StatusTypeDef) HAL_SPI_...(...)\<close> keeps the numeric value of the
  enumerator.
\<close>

fun status_cast :: "HAL_StatusTypeDef \<Rightarrow> ADT7320_StatusTypeDef" where
  "status_cast HAL_OK = ADT7320_OK"
| "status_cast HAL_ERROR = ADT7320_ERROR"
| "status_cast HAL_BUSY = ADT7320_BUSY"
| "status_cast HAL_TIMEOUT = ADT7320_TIMEOUT"

text \<open>
  \<^verbatim>\<open>ADT7320_ConfigTypeDef\<close> (adt7320.h, lines 144-149). The two pointers are kept as
  the addresses they hold; a handle that may be \<^verbatim>\<open>NULL\<close> is an \<open>option\<close>.
\<close>

record ADT7320_ConfigTypeDef =
  SPIx :: nat
  csPort :: nat
  csPin :: u16

datatype GPIO_PinState = GPIO_PIN_RESET | GPIO_PIN_SET

definition ADT7320_MAX_DELAY :: u32 where
  "ADT7320_MAX_DELAY = 0xFFFFFFFF"

definition ADT7320_READ :: u32 where
  "ADT7320_READ = 0x40"

definition ADT7320_WRITE :: u32 where
  "ADT7320_WRITE = 0x00"

definition ADT7320_TEMP :: u8 where
  "ADT7320_TEMP = 0x02"

section \<open>The HAL as the driver sees it\<close>

text \<open>
  Every call the driver makes into the HAL is recorded, in order, with its arguments.
  An SPI call records the contents of the array whose address it is given, the
  \<^verbatim>\<open>Size\<close> argument and the timeout.
\<close>

datatype hal_call =
    HAL_GPIO_WritePin nat u16 GPIO_PinState
  | HAL_SPI_Transmit nat "u8 list" nat u32
  | HAL_SPI_TransmitReceive nat "u8 list" nat u32

text \<open>
  Lines 63/65, 99/101 and 145/147: chip-select is active low, \<^verbatim>\<open>GPIO_PIN_RESET\<close> asserts it
  and \<^verbatim>\<open>GPIO_PIN_SET\<close> releases it.
\<close>

abbreviation cs_assert :: "ADT7320_ConfigTypeDef \<Rightarrow> hal_call" where
  "cs_assert cfg \<equiv> HAL_GPIO_WritePin (csPort cfg) (csPin cfg) GPIO_PIN_RESET"

abbreviation cs_release :: "ADT7320_ConfigTypeDef \<Rightarrow> hal_call" where
  "cs_release cfg \<equiv> HAL_GPIO_WritePin (csPort cfg) (csPin cfg) GPIO_PIN_SET"

text \<open>
  The transport is an arbitrary deterministic collaborator: what an SPI call returns
  (and, for an exchange, the bytes it received) is a function of all the calls made so
  far, the current one included.
\<close>

record hal =
  transmit_result :: "hal_call list \<Rightarrow> HAL_StatusTypeDef"
  exchange_result :: "hal_call list \<Rightarrow> HAL_StatusTypeDef \<times> u8 list"

text \<open>
  The bytes an SPI call puts on the wire: the first \<^verbatim>\<open>Size\<close> bytes of its array.
\<close>

fun wire_bytes :: "hal_call \<Rightarrow> u8 list" where
  "wire_bytes (HAL_GPIO_WritePin p n s) = []"
| "wire_bytes (HAL_SPI_Transmit h buf n t) = take n buf"
| "wire_bytes (HAL_SPI_TransmitReceive h buf n t) = take n buf"

text \<open>
  An exchange stores the received bytes over the start of the receive array; bytes the
  transport did not deliver (a failed exchange may deliver none) leave the array as it was.
  An exchange whose \<^verbatim>\<open>Size\<close> exceeds the array puts the excess outside it, in memory the
  model does not represent.
\<close>

fun store_rx :: "u8 list \<Rightarrow> u8 list \<Rightarrow> u8 list" where
  "store_rx (r # rs) (b # bs) = r # store_rx rs bs"
| "store_rx [] bs = bs"
| "store_rx rs [] = []"

text \<open>
  The C code has no defined behaviour when it indexes past the end of a three-byte array
  or shifts a 32-bit \<^verbatim>\<open>int\<close> by 32 or more. An execution ends in a \<open>fault\<close> at the
  first statement of the driver that does so; the HAL calls made before that statement
  stay recorded.
\<close>

datatype fault = OutOfBounds | ShiftTooWide

section \<open>ADT7320_Init (adt7320.c, lines 52-69)\<close>

definition ADT7320_Init ::
  "hal \<Rightarrow> ADT7320_ConfigTypeDef option \<Rightarrow> hal_call list
     \<Rightarrow> ADT7320_StatusTypeDef \<times> hal_call list" where
  "ADT7320_Init h pConfig tr =
     (case pConfig of
        None \<Rightarrow> (ADT7320_ERROR, tr)
      | Some cfg \<Rightarrow>
          let data = [0xFF, 0xFF, 0xFF, 0xFF];
              tr1 = tr @ [cs_assert cfg];
              tr2 = tr1 @ [HAL_SPI_Transmit (SPIx cfg) data 4 ADT7320_MAX_DELAY];
              status = status_cast (transmit_result h tr2);
              tr3 = tr2 @ [cs_release cfg]
          in (status, tr3))"

section \<open>ADT7320_ReadRegister (adt7320.c, lines 85-111)\<close>

text \<open>
  Line 97: \<^verbatim>\<open>(ADT7320_READ | ((reg & 0x1FU) << 3U))\<close>, computed in \<^verbatim>\<open>unsigned int\<close>
  after promotion and truncated to a byte by the store into the array.
\<close>

definition read_command :: "u8 \<Rightarrow> u8" where
  "read_command reg = ucast (ADT7320_READ OR push_bit 3 ((ucast reg :: u32) AND 0x1F))"

text \<open>
  Lines 103-106: \<^verbatim>\<open>for (uint8_t i = 1U; i <= dataSize; i++) rxData = (rxData << 8U) | txRxBuf[i];\<close>
  The counter is a byte; the array has three elements.
\<close>

function rx_loop :: "u8 list \<Rightarrow> u8 \<Rightarrow> u8 \<Rightarrow> u16 \<Rightarrow> fault + u16" where
  "rx_loop txRxBuf dataSize i rxData =
     (if i \<le> dataSize then
        (if unat i < 3 \<and> unat i < length txRxBuf then
           rx_loop txRxBuf dataSize (i + 1)
             (ucast (push_bit 8 (ucast rxData :: u32) OR ucast (txRxBuf ! unat i)))
         else Inl OutOfBounds)
      else Inr rxData)"
  by pat_completeness auto
termination
  by (relation "measure (\<lambda>(txRxBuf, dataSize, i, rxData). 3 - unat i)")
     (auto simp: unat_word_ariths)

text \<open>
  The function takes the value stored at \<^verbatim>\<open>pData\<close> before the call and returns the value
  stored there after it. The code does not test \<^verbatim>\<open>pData\<close>; it is taken to point to a
  valid location.
\<close>

definition ADT7320_ReadRegister ::
  "hal \<Rightarrow> ADT7320_ConfigTypeDef option \<Rightarrow> u8 \<Rightarrow> u8 \<Rightarrow> u16 \<Rightarrow> hal_call list
     \<Rightarrow> (fault + ADT7320_StatusTypeDef \<times> u16) \<times> hal_call list" where
  "ADT7320_ReadRegister h pConfig reg dataSize pData tr =
     (case pConfig of
        None \<Rightarrow> (Inr (ADT7320_ERROR, pData), tr)
      | Some cfg \<Rightarrow>
          if dataSize = 0 then (Inr (ADT7320_ERROR, pData), tr)
          else
            let txRxBuf = [0, 0, 0] [0 := read_command reg];
                tr1 = tr @ [cs_assert cfg];
                n = unat dataSize + 1;
                tr2 = tr1 @ [HAL_SPI_TransmitReceive (SPIx cfg) txRxBuf n ADT7320_MAX_DELAY];
                (hs, rx) = exchange_result h tr2;
                txRxBuf = store_rx (take n rx) txRxBuf;
                status = status_cast hs;
                tr3 = tr2 @ [cs_release cfg]
            in (case rx_loop txRxBuf dataSize 1 0 of
                  Inl f \<Rightarrow> (Inl f, tr3)
                | Inr rxData \<Rightarrow> (Inr (status, rxData), tr3)))"

section \<open>ADT7320_WriteRegister (adt7320.c, lines 127-151)\<close>

text \<open>Line 138: \<^verbatim>\<open>(ADT7320_WRITE | ((reg & 0x1FU) << 3U))\<close>.\<close>

definition write_command :: "u8 \<Rightarrow> u8" where
  "write_command reg = ucast (ADT7320_WRITE OR push_bit 3 ((ucast reg :: u32) AND 0x1F))"

text \<open>
  Lines 140-143:
  \<^verbatim>\<open>for (uint8_t i = 0U; i < dataSize; i++) txBuf[i + 1U] = (uint8_t)(data >> (8U * (dataSize - i - 1U)));\<close>
  The shift count and the index are computed in \<^verbatim>\<open>unsigned int\<close>; \<^verbatim>\<open>data\<close> is promoted
  to a 32-bit \<^verbatim>\<open>int\<close> before the shift.
\<close>

function tx_loop :: "u8 list \<Rightarrow> u16 \<Rightarrow> u8 \<Rightarrow> u8 \<Rightarrow> fault + u8 list" where
  "tx_loop txBuf data dataSize i =
     (if i < dataSize then
        (let sh = 8 * (unat dataSize - unat i - 1) in
         if 32 \<le> sh then Inl ShiftTooWide
         else if unat i + 1 < 3 \<and> unat i + 1 < length txBuf then
           tx_loop (txBuf [unat i + 1 := ucast (drop_bit sh (ucast data :: u32))])
             data dataSize (i + 1)
         else Inl OutOfBounds)
      else Inr txBuf)"
  by pat_completeness auto
termination
  by (relation "measure (\<lambda>(txBuf, data, dataSize, i). 3 - unat i)")
     (auto simp: unat_word_ariths)

definition ADT7320_WriteRegister ::
  "hal \<Rightarrow> ADT7320_ConfigTypeDef option \<Rightarrow> u8 \<Rightarrow> u8 \<Rightarrow> u16 \<Rightarrow> hal_call list
     \<Rightarrow> (fault + ADT7320_StatusTypeDef) \<times> hal_call list" where
  "ADT7320_WriteRegister h pConfig reg dataSize data tr =
     (case pConfig of
        None \<Rightarrow> (Inr ADT7320_ERROR, tr)
      | Some cfg \<Rightarrow>
          if dataSize = 0 then (Inr ADT7320_ERROR, tr)
          else
            (case tx_loop ([0, 0, 0] [0 := write_command reg]) data dataSize 0 of
               Inl f \<Rightarrow> (Inl f, tr)
             | Inr txBuf \<Rightarrow>
                 let tr1 = tr @ [cs_assert cfg];
                     n = unat dataSize + 1;
                     tr2 = tr1 @ [HAL_SPI_Transmit (SPIx cfg) txBuf n ADT7320_MAX_DELAY];
                     status = status_cast (transmit_result h tr2);
                     tr3 = tr2 @ [cs_release cfg]
                 in (Inr status, tr3)))"

section \<open>ADT7320_ReadTemperature (adt7320.c, lines 168-197)\<close>

text \<open>
  Lines 184-191. A 16-bit integer, signed or unsigned, is exactly representable in
  single precision (24-bit significand) and dividing it by \<open>128 = 2 ^ 7\<close> only changes
  the exponent, so the \<^verbatim>\<open>float\<close> the code computes is the rational number below: no
  rounding takes place.
\<close>

definition raw_to_celsius :: "u16 \<Rightarrow> real" where
  "raw_to_celsius data =
     (if data AND 0x8000 \<noteq> 0 then real_of_int (sint data) / 128
      else real (unat data) / 128)"

text \<open>
  The function takes the value stored at \<^verbatim>\<open>pTemperature\<close> before the call and returns the
  value stored there after it.
\<close>

definition ADT7320_ReadTemperature ::
  "hal \<Rightarrow> ADT7320_ConfigTypeDef option \<Rightarrow> real \<Rightarrow> hal_call list
     \<Rightarrow> (fault + ADT7320_StatusTypeDef \<times> real) \<times> hal_call list" where
  "ADT7320_ReadTemperature h pConfig pTemperature tr =
     (case pConfig of
        None \<Rightarrow> (Inr (ADT7320_ERROR, pTemperature), tr)
      | Some cfg \<Rightarrow>
          (case ADT7320_ReadRegister h pConfig ADT7320_TEMP 2 0 tr of
             (Inl f, tr') \<Rightarrow> (Inl f, tr')
           | (Inr (status, data), tr') \<Rightarrow>
               if status = ADT7320_OK then (Inr (status, raw_to_celsius data), tr')
               else (Inr (status, pTemperature), tr')))"

section \<open>Specification-side notions and test transports\<close>

text \<open>
  The spec's big-endian reassembly, in its own words: an accumulator that starts at zero
  and takes each successive byte into its low eight bits, as an unbounded number.
\<close>

definition big_endian :: "u8 list \<Rightarrow> nat" where
  "big_endian bytes = foldl (\<lambda>acc b. acc * 256 + unat b) 0 bytes"

text \<open>
  The spec's split of a value into \<open>size\<close> payload bytes, most significant first:
  payload byte \<open>i\<close> is \<open>(value >> (8 * (size - i - 1))) & 0xFF\<close>.
\<close>

definition payload_msb_first :: "nat \<Rightarrow> u16 \<Rightarrow> u8 list" where
  "payload_msb_first s v =
     map (\<lambda>i. ucast (drop_bit (8 * (s - i - 1)) v AND 0xFF)) [0..<s]"

text \<open>
  One chip-select window: chip-select asserted, exactly one SPI call, chip-select
  released, on the pin of the handle.
\<close>

fun is_spi_call :: "hal_call \<Rightarrow> bool" where
  "is_spi_call (HAL_GPIO_WritePin p n s) = False"
| "is_spi_call (HAL_SPI_Transmit x buf n t) = True"
| "is_spi_call (HAL_SPI_TransmitReceive x buf n t) = True"

fun cs_window :: "ADT7320_ConfigTypeDef \<Rightarrow> hal_call list \<Rightarrow> bool" where
  "cs_window cfg [a, c, r] = (a = cs_assert cfg \<and> is_spi_call c \<and> r = cs_release cfg)"
| "cs_window cfg calls = False"

text \<open>
  The handle of the example program (example/main.c, lines 17-19): \<^verbatim>\<open>GPIO_PIN_4\<close> is
  \<open>0x0010\<close>; the two addresses are arbitrary.
\<close>

definition example_config :: ADT7320_ConfigTypeDef where
  "example_config = \<lparr>SPIx = 1, csPort = 2, csPin = 0x0010\<rparr>"

text \<open>
  A mock transport that reports the same status for every call and delivers the same
  bytes for every exchange.
\<close>

definition mock_transport :: "HAL_StatusTypeDef \<Rightarrow> u8 list \<Rightarrow> hal" where
  "mock_transport st rx =
     \<lparr>transmit_result = (\<lambda>calls. st), exchange_result = (\<lambda>calls. (st, rx))\<rparr>"

declare rx_loop.simps [simp del]
declare tx_loop.simps [simp del]

section \<open>Auxiliary facts\<close>

subsection \<open>The two loops at given sizes\<close>

lemma length_store_rx: "length (store_rx rs bs) = length bs"
  by (induction rs bs rule: store_rx.induct) simp_all

lemma rx_loop_size1:
  "length buf = 3 \<Longrightarrow> rx_loop buf 1 1 0 = Inr (ucast (buf ! 1))"
  apply (simp add: rx_loop.simps [of _ 1 1] rx_loop.simps [of _ 1 2] word_le_nat_alt)
  apply (rule bit_word_eqI)
  apply (auto simp: bit_simps)
  done

lemma rx_loop_size2:
  "length buf = 3 \<Longrightarrow>
   rx_loop buf 2 1 0 = Inr (push_bit 8 (ucast (buf ! 1)) OR ucast (buf ! 2))"
  apply (simp add: rx_loop.simps [of _ 2 1] rx_loop.simps [of _ 2 2] rx_loop.simps [of _ 2 3]
      word_le_nat_alt)
  apply (rule bit_word_eqI)
  apply (auto simp: bit_simps)
  done

lemma rx_loop_size3:
  "length buf = 3 \<Longrightarrow> rx_loop buf 3 1 0 = Inl OutOfBounds"
  by (simp add: rx_loop.simps [of _ 3 1] rx_loop.simps [of _ 3 2] rx_loop.simps [of _ 3 3]
      word_le_nat_alt)

lemma tx_loop_size1:
  "tx_loop [c, 0, 0] v 1 0 = Inr [c, ucast v, 0]"
  apply (simp add: tx_loop.simps [of _ _ 1 0] tx_loop.simps [of _ _ 1 1] word_less_nat_alt)
  apply (rule bit_word_eqI)
  apply (auto simp: bit_simps)
  done

lemma tx_loop_size2:
  "tx_loop [c, 0, 0] v 2 0 = Inr [c, ucast (drop_bit 8 v), ucast v]"
  apply (simp add: tx_loop.simps [of _ _ 2 0] tx_loop.simps [of _ _ 2 1]
      tx_loop.simps [of _ _ 2 2] word_less_nat_alt)
  apply (intro conjI; rule bit_word_eqI)
   apply (auto simp: bit_simps)
  done

lemma tx_loop_size3: "tx_loop [c, 0, 0] v 3 0 = Inl OutOfBounds"
  by (simp add: tx_loop.simps [of _ _ 3 0] tx_loop.simps [of _ _ 3 1]
      tx_loop.simps [of _ _ 3 2] word_less_nat_alt)

lemma rx_loop_oversize:
  assumes "length buf = 3" and "3 \<le> unat dataSize"
  shows "rx_loop buf dataSize 1 0 = Inl OutOfBounds"
  using assms
  by (simp add: rx_loop.simps [of _ dataSize 1] rx_loop.simps [of _ dataSize 2]
      rx_loop.simps [of _ dataSize 3] word_le_nat_alt)

lemma tx_loop_oversize:
  assumes "3 \<le> unat dataSize"
  shows "isl (tx_loop [c, 0, 0] v dataSize 0)"
  using assms
  by (simp add: tx_loop.simps [of _ _ dataSize 0] tx_loop.simps [of _ _ dataSize 1]
      tx_loop.simps [of _ _ dataSize 2] word_less_nat_alt Let_def)

subsection \<open>Read and write at sizes 1 and 2\<close>

lemma ReadRegister_size1:
  "ADT7320_ReadRegister h (Some cfg) reg 1 p tr =
     (Inr (status_cast (fst (exchange_result h (tr @ [cs_assert cfg,
             HAL_SPI_TransmitReceive (SPIx cfg) [read_command reg, 0, 0] 2 ADT7320_MAX_DELAY]))),
           ucast (store_rx (take 2 (snd (exchange_result h (tr @ [cs_assert cfg,
             HAL_SPI_TransmitReceive (SPIx cfg) [read_command reg, 0, 0] 2 ADT7320_MAX_DELAY]))))
             [read_command reg, 0, 0] ! 1)),
      tr @ [cs_assert cfg,
            HAL_SPI_TransmitReceive (SPIx cfg) [read_command reg, 0, 0] 2 ADT7320_MAX_DELAY,
            cs_release cfg])"
  by (simp add: ADT7320_ReadRegister_def Let_def split_beta rx_loop_size1 length_store_rx
      numeral_2_eq_2)

lemma ReadRegister_size2:
  "ADT7320_ReadRegister h (Some cfg) reg 2 p tr =
     (Inr (status_cast (fst (exchange_result h (tr @ [cs_assert cfg,
             HAL_SPI_TransmitReceive (SPIx cfg) [read_command reg, 0, 0] 3 ADT7320_MAX_DELAY]))),
           push_bit 8 (ucast (store_rx (take 3 (snd (exchange_result h (tr @ [cs_assert cfg,
             HAL_SPI_TransmitReceive (SPIx cfg) [read_command reg, 0, 0] 3 ADT7320_MAX_DELAY]))))
             [read_command reg, 0, 0] ! 1))
           OR ucast (store_rx (take 3 (snd (exchange_result h (tr @ [cs_assert cfg,
             HAL_SPI_TransmitReceive (SPIx cfg) [read_command reg, 0, 0] 3 ADT7320_MAX_DELAY]))))
             [read_command reg, 0, 0] ! 2)),
      tr @ [cs_assert cfg,
            HAL_SPI_TransmitReceive (SPIx cfg) [read_command reg, 0, 0] 3 ADT7320_MAX_DELAY,
            cs_release cfg])"
  by (simp add: ADT7320_ReadRegister_def Let_def split_beta rx_loop_size2 length_store_rx
      numeral_3_eq_3)

lemma WriteRegister_size1:
  "ADT7320_WriteRegister h (Some cfg) reg 1 v tr =
     (Inr (status_cast (transmit_result h (tr @ [cs_assert cfg,
             HAL_SPI_Transmit (SPIx cfg) [write_command reg, ucast v, 0] 2 ADT7320_MAX_DELAY]))),
      tr @ [cs_assert cfg,
            HAL_SPI_Transmit (SPIx cfg) [write_command reg, ucast v, 0] 2 ADT7320_MAX_DELAY,
            cs_release cfg])"
  by (simp add: ADT7320_WriteRegister_def Let_def tx_loop_size1 numeral_2_eq_2)

lemma WriteRegister_size2:
  "ADT7320_WriteRegister h (Some cfg) reg 2 v tr =
     (Inr (status_cast (transmit_result h (tr @ [cs_assert cfg,
             HAL_SPI_Transmit (SPIx cfg) [write_command reg, ucast (drop_bit 8 v), ucast v] 3
               ADT7320_MAX_DELAY]))),
      tr @ [cs_assert cfg,
            HAL_SPI_Transmit (SPIx cfg) [write_command reg, ucast (drop_bit 8 v), ucast v] 3
              ADT7320_MAX_DELAY,
            cs_release cfg])"
  by (simp add: ADT7320_WriteRegister_def Let_def tx_loop_size2 numeral_3_eq_3)

subsection \<open>Command bytes as numbers\<close>

lemma and_31_take_bit: "(k::int) AND 31 = take_bit 5 k"
  using take_bit_eq_mask [of 5 k] by (simp add: mask_eq_exp_minus_1)

lemma command_uint:
  "uint ((d::u8) OR push_bit 3 (a AND 0x1F)) = uint d OR push_bit 3 (uint a AND 0x1F)"
proof -
  have "uint (push_bit 3 (a AND 0x1F)) = take_bit 8 (push_bit 3 (uint (a AND 0x1F)))"
    by (simp only: unsigned_push_bit_eq) simp
  also have "uint (a AND 0x1F) = take_bit 5 (uint a)"
    by (simp only: uint_and and_31_take_bit [symmetric]) simp
  also have "take_bit 8 (push_bit 3 (take_bit 5 (uint a))) = push_bit 3 (take_bit 5 (uint a))"
    by (simp add: take_bit_push_bit)
  finally show ?thesis
    by (simp only: uint_or and_31_take_bit)
qed

lemma read_command_byte: "read_command a = 0x40 OR push_bit 3 (a AND 0x1F)"
  unfolding read_command_def ADT7320_READ_def
  by (rule bit_word_eqI) (auto simp: bit_simps)

lemma write_command_byte: "write_command a = 0x00 OR push_bit 3 (a AND 0x1F)"
  unfolding write_command_def ADT7320_WRITE_def
  by (rule bit_word_eqI) (auto simp: bit_simps)

subsection \<open>Big-endian numbers and the receive array\<close>

lemma big_endian_one: "big_endian [b] = unat b"
  by (simp add: big_endian_def)

lemma big_endian_two: "big_endian [b, c] = unat b * 256 + unat c"
  by (simp add: big_endian_def)

lemma big_endian_bound: "length bytes \<le> 2 \<Longrightarrow> big_endian bytes < 65536"
proof -
  assume "length bytes \<le> 2"
  then consider "bytes = []" | b where "bytes = [b]" | b c where "bytes = [b, c]"
    by (cases bytes; cases "tl bytes"; cases "tl (tl bytes)") auto
  then show ?thesis
  proof cases
    case 1
    then show ?thesis by (simp add: big_endian_def)
  next
    case 2
    have "unat b < 256" using unsigned_less [of b, where 'a = nat] by simp
    with 2 show ?thesis by (simp add: big_endian_one)
  next
    case 3
    have "unat b < 256" "unat c < 256"
      using unsigned_less [of b, where 'a = nat] unsigned_less [of c, where 'a = nat]
      by simp_all
    with 3 show ?thesis by (simp add: big_endian_two)
  qed
qed

lemma word_of_two_bytes:
  "(push_bit 8 (ucast (b::u8)) OR ucast (c::u8) :: u16) = word_of_nat (unat b * 256 + unat c)"
proof -
  have "(push_bit 8 (ucast b) + ucast c :: u16) = push_bit 8 (ucast b) OR ucast c"
    by (rule disjunctive_add_eq_or, rule bit_word_eqI)
      (auto simp: bit_simps dest: bit_imp_le_length)
  moreover have "(word_of_nat (unat b * 256 + unat c) :: u16) = push_bit 8 (ucast b) + ucast c"
    by (simp add: push_bit_eq_mult)
  ultimately show ?thesis by simp
qed

lemma store_rx_take:
  "n \<le> length rs \<Longrightarrow> n \<le> length bs \<Longrightarrow> take n (store_rx (take n rs) bs) = take n rs"
proof (induction rs bs arbitrary: n rule: store_rx.induct)
  case (1 r rs b bs)
  then show ?case by (cases n) simp_all
qed simp_all

lemma three_elements:
  assumes "length buf = 3"
  obtains a b c where "buf = [a, b, c]"
  using assms by (cases buf; cases "tl buf"; cases "tl (tl buf)") auto

lemma rx_loop_valid:
  assumes "length buf = 3" and "dataSize = 1 \<or> dataSize = 2"
  shows "rx_loop buf dataSize 1 0 =
     Inr (word_of_nat (big_endian (take (unat dataSize) (tl buf))))"
proof -
  from assms(1) obtain a b c where abc: "buf = [a, b, c]" by (rule three_elements)
  from assms(2) show ?thesis
  proof
    assume "dataSize = 1"
    with assms(1) show ?thesis
      by (simp add: rx_loop_size1) (simp add: abc big_endian_one)
  next
    assume "dataSize = 2"
    with assms(1) show ?thesis
      by (simp add: rx_loop_size2) (simp add: abc big_endian_two word_of_two_bytes)
  qed
qed

lemma ReadRegister_reassembles:
  assumes "dataSize = 1 \<or> dataSize = 2"
  shows "ADT7320_ReadRegister h (Some cfg) reg dataSize pData tr =
     (Inr (status_cast (fst (exchange_result h (tr @ [cs_assert cfg,
            HAL_SPI_TransmitReceive (SPIx cfg) [read_command reg, 0, 0] (unat dataSize + 1)
              ADT7320_MAX_DELAY]))),
          word_of_nat (big_endian (take (unat dataSize) (tl (store_rx
            (take (unat dataSize + 1) (snd (exchange_result h (tr @ [cs_assert cfg,
               HAL_SPI_TransmitReceive (SPIx cfg) [read_command reg, 0, 0] (unat dataSize + 1)
                 ADT7320_MAX_DELAY]))))
            [read_command reg, 0, 0]))))),
      tr @ [cs_assert cfg,
            HAL_SPI_TransmitReceive (SPIx cfg) [read_command reg, 0, 0] (unat dataSize + 1)
              ADT7320_MAX_DELAY,
            cs_release cfg])"
proof -
  from assms have nz: "dataSize \<noteq> 0" by auto
  show ?thesis
    by (simp add: ADT7320_ReadRegister_def Let_def split_beta nz
        rx_loop_valid [OF _ assms] length_store_rx)
qed

lemma received_bytes:
  assumes "s + 1 \<le> length rx" and "s + 1 \<le> length buf"
  shows "take s (tl (store_rx (take (s + 1) rx) buf)) = take s (tl rx)"
proof -
  have "take s (tl (store_rx (take (s + 1) rx) buf)) =
        tl (take (s + 1) (store_rx (take (s + 1) rx) buf))"
    by (simp add: tl_take)
  also have "\<dots> = tl (take (s + 1) rx)"
    using assms by (simp only: store_rx_take)
  finally show ?thesis by (simp add: tl_take)
qed

subsection \<open>The payload of a write\<close>

lemma low_byte: "(ucast ((w::u16) AND 0xFF) :: u8) = ucast w"
proof -
  have "w AND 0xFF = take_bit 8 w"
    using take_bit_eq_mask [of 8 w] by (simp add: mask_eq_exp_minus_1)
  then show ?thesis
    by (simp only:) (rule bit_word_eqI, auto simp: bit_simps)
qed

lemma upt_0_2: "[0..<2] = [0, 1]"
  by (simp add: numeral_2_eq_2)

lemma tx_loop_valid:
  assumes "dataSize = 1 \<or> dataSize = 2"
  shows "tx_loop [c, 0, 0] v dataSize 0 =
     Inr (c # payload_msb_first (unat dataSize) v @ replicate (2 - unat dataSize) 0)"
  using assms
proof
  assume "dataSize = 1"
  then show ?thesis
    by (simp add: tx_loop_size1 payload_msb_first_def low_byte)
next
  assume "dataSize = 2"
  then show ?thesis
    by (simp add: tx_loop_size2 payload_msb_first_def low_byte upt_0_2)
qed

lemma WriteRegister_valid:
  assumes "dataSize = 1 \<or> dataSize = 2"
  shows "ADT7320_WriteRegister h (Some cfg) reg dataSize data tr =
     (Inr (status_cast (transmit_result h (tr @ [cs_assert cfg,
        HAL_SPI_Transmit (SPIx cfg)
          (write_command reg # payload_msb_first (unat dataSize) data @
             replicate (2 - unat dataSize) 0)
          (unat dataSize + 1) ADT7320_MAX_DELAY]))),
      tr @ [cs_assert cfg,
            HAL_SPI_Transmit (SPIx cfg)
              (write_command reg # payload_msb_first (unat dataSize) data @
                 replicate (2 - unat dataSize) 0)
              (unat dataSize + 1) ADT7320_MAX_DELAY,
            cs_release cfg])"
proof -
  from assms have nz: "dataSize \<noteq> 0" by auto
  show ?thesis
    by (simp add: ADT7320_WriteRegister_def Let_def nz tx_loop_valid [OF assms])
qed

lemma length_payload: "length (payload_msb_first s v) = s"
  by (simp add: payload_msb_first_def)

lemma payload_nth:
  "i < s \<Longrightarrow> payload_msb_first s v ! i = ucast (drop_bit (8 * (s - i - 1)) v AND 0xFF)"
  by (simp add: payload_msb_first_def)

subsection \<open>Temperature codes\<close>

lemma sign_bit_test: "((data::u16) AND 0x8000 \<noteq> 0) = bit data 15"
proof -
  have "(0x8000::u16) = 2 ^ 15" by simp
  then show ?thesis
    by (simp only: and_exp_eq_0_iff_not_bit) simp
qed

lemma sint_u16:
  "sint (data::u16) = (if bit data 15 then uint data - 65536 else uint data)"
proof -
  have "sint data = take_bit 16 (uint data) - 2 ^ 16 * of_bool (bit (uint data) 15)"
    by (simp add: sint_uint signed_take_bit_eq_take_bit_minus)
  moreover have "take_bit 16 (uint data) = uint data"
    by (rule take_bit_int_eq_self) (use uint_lt2p [of data] in simp_all)
  moreover have "bit (uint data) 15 = bit data 15"
    by (simp add: bit_uint_iff)
  ultimately show ?thesis by simp
qed

lemma raw_to_celsius_eq:
  "raw_to_celsius data =
     (if bit data 15 then real_of_int (uint data - 65536) else real_of_int (uint data)) / 128"
  by (simp add: raw_to_celsius_def sign_bit_test sint_u16 del: of_int_diff)

lemma ReadTemperature_eq:
  "ADT7320_ReadTemperature h (Some cfg) pTemperature tr =
     (case ADT7320_ReadRegister h (Some cfg) 2 2 0 tr of
        (Inl f, tr') \<Rightarrow> (Inl f, tr')
      | (Inr (status, data), tr') \<Rightarrow>
          if status = ADT7320_OK then (Inr (ADT7320_OK, raw_to_celsius data), tr')
          else (Inr (status, pTemperature), tr'))"
  by (simp add: ADT7320_ReadTemperature_def ADT7320_TEMP_def split: prod.split sum.split)

text \<open>
  Both branches of the conversion are the two's-complement reading of the code, and the
  numerator has at most 16 significant bits.
\<close>

lemma raw_to_celsius_sint:
  "raw_to_celsius data = real_of_int (sint data) / 128 \<and>
   - 32768 \<le> sint data \<and> sint data < 32768"
  using sint_range_size [of data]
  by (simp add: raw_to_celsius_eq sint_u16 word_size del: of_int_diff)

subsection \<open>The HAL calls of each operation\<close>

lemma Init_calls:
  "snd (ADT7320_Init h (Some cfg) tr) =
     tr @ [cs_assert cfg,
           HAL_SPI_Transmit (SPIx cfg) [0xFF, 0xFF, 0xFF, 0xFF] 4 ADT7320_MAX_DELAY,
           cs_release cfg]"
  by (simp add: ADT7320_Init_def Let_def)

lemma ReadRegister_calls:
  "snd (ADT7320_ReadRegister h (Some cfg) reg dataSize pData tr) =
     (if dataSize = 0 then tr
      else tr @ [cs_assert cfg,
                 HAL_SPI_TransmitReceive (SPIx cfg) [read_command reg, 0, 0] (unat dataSize + 1)
                   ADT7320_MAX_DELAY,
                 cs_release cfg])"
  by (simp add: ADT7320_ReadRegister_def Let_def split_beta split: sum.split)

lemma WriteRegister_calls:
  "snd (ADT7320_WriteRegister h (Some cfg) reg dataSize data tr) =
     (if dataSize = 0 then tr
      else case tx_loop [write_command reg, 0, 0] data dataSize 0 of
             Inl f \<Rightarrow> tr
           | Inr txBuf \<Rightarrow>
               tr @ [cs_assert cfg,
                     HAL_SPI_Transmit (SPIx cfg) txBuf (unat dataSize + 1) ADT7320_MAX_DELAY,
                     cs_release cfg])"
  by (simp add: ADT7320_WriteRegister_def Let_def split: sum.split)

section \<open>Argument validation\<close>

text \<open>
  C7. With a null handle each of the four operations returns \<open>ADT7320_ERROR\<close>, whatever
  its other arguments, makes no HAL call (neither SPI nor chip-select) and leaves its
  output location as it was.
\<close>

theorem null_handle_rejected:
  "ADT7320_Init h None tr = (ADT7320_ERROR, tr) \<and>
   ADT7320_ReadRegister h None reg dataSize pData tr = (Inr (ADT7320_ERROR, pData), tr) \<and>
   ADT7320_WriteRegister h None reg dataSize data tr = (Inr ADT7320_ERROR, tr) \<and>
   ADT7320_ReadTemperature h None pTemperature tr = (Inr (ADT7320_ERROR, pTemperature), tr)"
  by (simp add: ADT7320_Init_def ADT7320_ReadRegister_def ADT7320_WriteRegister_def
      ADT7320_ReadTemperature_def)

text \<open>
  C1. A requested size of 3 with a valid handle is not rejected. The read asserts
  chip-select, runs an exchange of four bytes on its three-byte array, releases
  chip-select and then reads past the end of the array; the write stores past the end
  of its three-byte array. Neither returns \<open>ADT7320_ERROR\<close>.
\<close>

theorem oversize_request_not_rejected:
  "ADT7320_ReadRegister h (Some cfg) reg 3 pData [] =
     (Inl OutOfBounds,
      [cs_assert cfg,
       HAL_SPI_TransmitReceive (SPIx cfg) [read_command reg, 0, 0] 4 ADT7320_MAX_DELAY,
       cs_release cfg]) \<and>
   ADT7320_WriteRegister h (Some cfg) reg 3 data [] = (Inl OutOfBounds, [])"
  by (simp add: ADT7320_ReadRegister_def ADT7320_WriteRegister_def Let_def split_beta
      tx_loop_size3 rx_loop_size3 length_store_rx)

text \<open>
  Size 0 is rejected before any HAL call; every size from 3 to 255 ends in a fault.
\<close>

lemma zero_size_rejected:
  "ADT7320_ReadRegister h pConfig reg 0 pData tr = (Inr (ADT7320_ERROR, pData), tr) \<and>
   ADT7320_WriteRegister h pConfig reg 0 data tr = (Inr ADT7320_ERROR, tr)"
  by (simp add: ADT7320_ReadRegister_def ADT7320_WriteRegister_def split: option.split)

lemma oversize_read_faults:
  assumes "3 \<le> unat dataSize"
  shows "fst (ADT7320_ReadRegister h (Some cfg) reg dataSize pData tr) = Inl OutOfBounds"
proof -
  from assms have "dataSize \<noteq> 0" by auto
  then show ?thesis
    by (simp add: ADT7320_ReadRegister_def Let_def split_beta
        rx_loop_oversize [OF _ assms] length_store_rx)
qed

lemma oversize_write_faults:
  assumes "3 \<le> unat dataSize"
  shows "isl (fst (ADT7320_WriteRegister h (Some cfg) reg dataSize data tr))"
proof -
  from assms have "dataSize \<noteq> 0" by auto
  with tx_loop_oversize [OF assms, of "write_command reg" data] show ?thesis
    by (auto simp: ADT7320_WriteRegister_def Let_def split: sum.split)
qed

section \<open>Initialization\<close>

text \<open>
  C8. With a valid handle, initialization makes exactly three HAL calls: chip-select
  asserted, one transmit whose wire bytes are four times \<open>0xFF\<close> (no command byte), and
  chip-select released. The status returned is the transport's, with the same value.
\<close>

theorem init_reset_sequence:
  "snd (ADT7320_Init h (Some cfg) tr) =
     tr @ [cs_assert cfg,
           HAL_SPI_Transmit (SPIx cfg) [0xFF, 0xFF, 0xFF, 0xFF] 4 ADT7320_MAX_DELAY,
           cs_release cfg] \<and>
   wire_bytes (HAL_SPI_Transmit (SPIx cfg) [0xFF, 0xFF, 0xFF, 0xFF] 4 ADT7320_MAX_DELAY) =
     replicate 4 0xFF \<and>
   fst (ADT7320_Init h (Some cfg) tr) =
     status_cast (transmit_result h (tr @ [cs_assert cfg,
       HAL_SPI_Transmit (SPIx cfg) [0xFF, 0xFF, 0xFF, 0xFF] 4 ADT7320_MAX_DELAY])) \<and>
   status_value (fst (ADT7320_Init h (Some cfg) tr)) =
     hal_status_value (transmit_result h (tr @ [cs_assert cfg,
       HAL_SPI_Transmit (SPIx cfg) [0xFF, 0xFF, 0xFF, 0xFF] 4 ADT7320_MAX_DELAY]))"
proof -
  have cast: "status_value (status_cast s) = hal_status_value s" for s
    by (cases s) simp_all
  have four: "replicate 4 (0xFF :: u8) = [0xFF, 0xFF, 0xFF, 0xFF]"
    by (simp add: numeral_eq_Suc)
  show ?thesis
    by (simp add: ADT7320_Init_def Let_def cast four)
qed

section \<open>Command byte\<close>

text \<open>
  C2. For a transfer of one or two bytes, the first byte the read puts on the wire is
  \<open>0x40 | ((a & 0x1F) << 3)\<close> and the first byte the write puts on the wire is
  \<open>0x00 | ((a & 0x1F) << 3)\<close>, as numbers; this holds for every byte \<open>a\<close>, so for every
  address from 0 to 31.
\<close>

theorem command_byte_encoding:
  assumes "dataSize = 1 \<or> dataSize = 2"
  shows "uint (hd (wire_bytes
           (snd (ADT7320_ReadRegister h (Some cfg) a dataSize pData tr) ! Suc (length tr)))) =
           0x40 OR push_bit 3 (uint a AND 0x1F) \<and>
         uint (hd (wire_bytes
           (snd (ADT7320_WriteRegister h (Some cfg) a dataSize data tr) ! Suc (length tr)))) =
           0x00 OR push_bit 3 (uint a AND 0x1F)"
proof -
  have r: "uint (read_command a) = 0x40 OR push_bit 3 (uint a AND 0x1F)"
    using command_uint [of "0x40" a] by (simp only: read_command_byte) simp
  have w: "uint (write_command a) = 0x00 OR push_bit 3 (uint a AND 0x1F)"
    using command_uint [of "0x00" a] by (simp only: write_command_byte) simp
  from assms show ?thesis
  proof
    assume "dataSize = 1"
    then show ?thesis
      by (simp only: ReadRegister_size1 WriteRegister_size1 snd_conv nth_append_length_plus
          r w) (simp add: nth_append r w)
  next
    assume "dataSize = 2"
    then show ?thesis
      by (simp only: ReadRegister_size2 WriteRegister_size2) (simp add: nth_append r w)
  qed
qed

theorem command_byte_encoding_witness:
  "((2::u8) = 1 \<or> (2::u8) = 2) \<and>
   uint (hd (wire_bytes (snd (ADT7320_ReadRegister (mock_transport HAL_OK [0, 0x23, 0x00])
      (Some example_config) 2 2 0 []) ! Suc (length ([] :: hal_call list))))) = 0x50 \<and>
   uint (hd (wire_bytes (snd (ADT7320_WriteRegister (mock_transport HAL_OK [0, 0x23, 0x00])
      (Some example_config) 2 2 0xF600 []) ! Suc (length ([] :: hal_call list))))) = 0x10"
  using command_byte_encoding [where dataSize = 2 and a = 2 and tr = "[]" and pData = 0
      and h = "mock_transport HAL_OK [0, 0x23, 0x00]" and cfg = example_config
      and data = "0xF600"]
  by simp

section \<open>Register read\<close>

text \<open>
  C3. For a read of one or two bytes, when the transport delivers the command slot and
  the \<open>size\<close> register bytes, the value stored is the big-endian number of the \<open>size\<close>
  bytes received after the command slot, accumulated from zero eight bits at a time;
  that number fits in 16 bits, so nothing is lost. Received bytes \<open>0x23, 0x00\<close> with
  size 2 give \<open>0x2300\<close>, and received byte \<open>0x80\<close> with size 1 gives \<open>0x80\<close>.
\<close>

theorem big_endian_reassembly:
  "(dataSize = 1 \<or> dataSize = 2 \<longrightarrow>
    exchange_result h (tr @ [cs_assert cfg,
      HAL_SPI_TransmitReceive (SPIx cfg) [read_command reg, 0, 0] (unat dataSize + 1)
        ADT7320_MAX_DELAY]) = (hs, rx) \<longrightarrow>
    unat dataSize + 1 \<le> length rx \<longrightarrow>
      fst (ADT7320_ReadRegister h (Some cfg) reg dataSize pData tr) =
        Inr (status_cast hs, word_of_nat (big_endian (take (unat dataSize) (tl rx)))) \<and>
      big_endian (take (unat dataSize) (tl rx)) < 2 ^ 16) \<and>
   fst (ADT7320_ReadRegister (mock_transport HAL_OK [c, 0x23, 0x00]) (Some cfg) reg 2 pData tr) =
     Inr (ADT7320_OK, 0x2300) \<and>
   fst (ADT7320_ReadRegister (mock_transport HAL_OK [c, 0x80]) (Some cfg) reg 1 pData tr) =
     Inr (ADT7320_OK, 0x80)"
proof (intro conjI impI)
  assume s: "dataSize = 1 \<or> dataSize = 2"
    and ex: "exchange_result h (tr @ [cs_assert cfg,
      HAL_SPI_TransmitReceive (SPIx cfg) [read_command reg, 0, 0] (unat dataSize + 1)
        ADT7320_MAX_DELAY]) = (hs, rx)"
    and len: "unat dataSize + 1 \<le> length rx"
  from s have "unat dataSize + 1 \<le> length [read_command reg, 0, 0]" by auto
  with len have "take (unat dataSize) (tl (store_rx (take (unat dataSize + 1) rx)
      [read_command reg, 0, 0])) = take (unat dataSize) (tl rx)"
    by (rule received_bytes)
  with ex show "fst (ADT7320_ReadRegister h (Some cfg) reg dataSize pData tr) =
        Inr (status_cast hs, word_of_nat (big_endian (take (unat dataSize) (tl rx))))"
    by (simp add: ReadRegister_reassembles [OF s])
  from s show "big_endian (take (unat dataSize) (tl rx)) < 2 ^ 16"
    using big_endian_bound [of "take (unat dataSize) (tl rx)"] by auto
next
  show "fst (ADT7320_ReadRegister (mock_transport HAL_OK [c, 0x23, 0x00]) (Some cfg) reg 2 pData tr) =
     Inr (ADT7320_OK, 0x2300)"
    by (simp add: ReadRegister_size2 mock_transport_def)
next
  show "fst (ADT7320_ReadRegister (mock_transport HAL_OK [c, 0x80]) (Some cfg) reg 1 pData tr) =
     Inr (ADT7320_OK, 0x80)"
    by (simp add: ReadRegister_size1 mock_transport_def)
qed

theorem big_endian_reassembly_witness:
  "((2::u8) = 1 \<or> (2::u8) = 2) \<and>
   exchange_result (mock_transport HAL_OK [0x50, 0x23, 0x00])
     ([] @ [cs_assert example_config,
      HAL_SPI_TransmitReceive (SPIx example_config) [read_command 2, 0, 0] (unat (2::u8) + 1)
        ADT7320_MAX_DELAY]) = (HAL_OK, [0x50, 0x23, 0x00]) \<and>
   unat (2::u8) + 1 \<le> length [0x50, 0x23, 0x00 :: u8] \<and>
   fst (ADT7320_ReadRegister (mock_transport HAL_OK [0x50, 0x23, 0x00]) (Some example_config)
          2 2 0 []) = Inr (ADT7320_OK, 0x2300)"
  using big_endian_reassembly [where dataSize = 2 and h = "mock_transport HAL_OK [0x50, 0x23, 0x00]"
      and tr = "[]" and cfg = example_config and reg = 2 and hs = HAL_OK
      and rx = "[0x50, 0x23, 0x00]" and pData = 0]
  by (simp add: mock_transport_def big_endian_def)

text \<open>
  At the sizes 1 and 2 the read stores through \<^verbatim>\<open>pData\<close> whatever the transport
  reports: the status is the transport's and the value is the big-endian number of the
  array after the exchange. With a transport that fails and delivers nothing, the array
  is still zero and the value stored is 0, over whatever \<^verbatim>\<open>pData\<close> held before.
\<close>

lemma read_stores_on_every_outcome:
  assumes "dataSize = 1 \<or> dataSize = 2"
  shows "fst (ADT7320_ReadRegister h (Some cfg) reg dataSize pData tr) =
     Inr (status_cast (fst (exchange_result h (tr @ [cs_assert cfg,
            HAL_SPI_TransmitReceive (SPIx cfg) [read_command reg, 0, 0] (unat dataSize + 1)
              ADT7320_MAX_DELAY]))),
          word_of_nat (big_endian (take (unat dataSize) (tl (store_rx
            (take (unat dataSize + 1) (snd (exchange_result h (tr @ [cs_assert cfg,
               HAL_SPI_TransmitReceive (SPIx cfg) [read_command reg, 0, 0] (unat dataSize + 1)
                 ADT7320_MAX_DELAY]))))
            [read_command reg, 0, 0]))))) \<and>
   fst (ADT7320_ReadRegister (mock_transport st []) (Some cfg) reg dataSize pData tr) =
     Inr (status_cast st, 0)"
proof
  show "fst (ADT7320_ReadRegister h (Some cfg) reg dataSize pData tr) =
     Inr (status_cast (fst (exchange_result h (tr @ [cs_assert cfg,
            HAL_SPI_TransmitReceive (SPIx cfg) [read_command reg, 0, 0] (unat dataSize + 1)
              ADT7320_MAX_DELAY]))),
          word_of_nat (big_endian (take (unat dataSize) (tl (store_rx
            (take (unat dataSize + 1) (snd (exchange_result h (tr @ [cs_assert cfg,
               HAL_SPI_TransmitReceive (SPIx cfg) [read_command reg, 0, 0] (unat dataSize + 1)
                 ADT7320_MAX_DELAY]))))
            [read_command reg, 0, 0])))))"
    by (simp add: ReadRegister_reassembles [OF assms])
  from assms have "big_endian (take (unat dataSize) [0, 0]) = 0"
    by (auto simp: big_endian_def)
  then show "fst (ADT7320_ReadRegister (mock_transport st []) (Some cfg) reg dataSize pData tr) =
     Inr (status_cast st, 0)"
    by (simp add: ReadRegister_reassembles [OF assms] mock_transport_def)
qed

lemma read_stores_on_every_outcome_witness:
  "((1::u8) = 1 \<or> (1::u8) = 2) \<and>
   fst (ADT7320_ReadRegister (mock_transport HAL_TIMEOUT []) (Some example_config) 3 1 0xABCD []) =
     Inr (ADT7320_TIMEOUT, 0)"
proof -
  have size: "(1::u8) = 1 \<or> (1::u8) = 2" by simp
  from read_stores_on_every_outcome [OF size, THEN conjunct2] size
  show ?thesis by simp
qed

text \<open>
  C10 at size 3, a nonzero size, with a transport that fails and delivers nothing. The
  guard lets the size through; after the exchange the loop reads \<^verbatim>\<open>txRxBuf[1]\<close>,
  \<^verbatim>\<open>txRxBuf[2]\<close> and then \<^verbatim>\<open>txRxBuf[3]\<close>, which is outside the three-byte array. What
  the code then stores through \<^verbatim>\<open>pData\<close> depends on memory that is not the receive
  array, so it is not the reassembly of the receive buffer: the execution has no defined
  result.
\<close>

theorem read_size3_out_of_bounds:
  "ADT7320_ReadRegister (mock_transport HAL_ERROR []) (Some example_config) 2 3 0 [] =
     (Inl OutOfBounds,
      [cs_assert example_config,
       HAL_SPI_TransmitReceive (SPIx example_config) [0x50, 0, 0] 4 ADT7320_MAX_DELAY,
       cs_release example_config])"
proof -
  have "read_command 2 = 0x50"
    by (simp add: read_command_def ADT7320_READ_def)
  then show ?thesis
    by (simp add: ADT7320_ReadRegister_def Let_def split_beta rx_loop_size3 length_store_rx)
qed

section \<open>Register write\<close>

text \<open>
  C4. For a write of one or two bytes, the HAL calls are chip-select asserted, one
  transmit, chip-select released. The transmit puts \<open>size + 1\<close> bytes on the wire: the
  command byte, then the payload most significant byte first, payload byte \<open>i\<close> being
  \<open>(value >> (8 * (size - i - 1))) & 0xFF\<close>.
\<close>

theorem write_payload_msb_first:
  assumes "dataSize = 1 \<or> dataSize = 2"
  shows "snd (ADT7320_WriteRegister h (Some cfg) reg dataSize data tr) =
           tr @ [cs_assert cfg,
                 HAL_SPI_Transmit (SPIx cfg)
                   (write_command reg # payload_msb_first (unat dataSize) data @
                      replicate (2 - unat dataSize) 0)
                   (unat dataSize + 1) ADT7320_MAX_DELAY,
                 cs_release cfg] \<and>
         wire_bytes (snd (ADT7320_WriteRegister h (Some cfg) reg dataSize data tr) !
             Suc (length tr)) =
           write_command reg # payload_msb_first (unat dataSize) data \<and>
         length (wire_bytes (snd (ADT7320_WriteRegister h (Some cfg) reg dataSize data tr) !
             Suc (length tr))) = unat dataSize + 1 \<and>
         (\<forall>i < unat dataSize.
            wire_bytes (snd (ADT7320_WriteRegister h (Some cfg) reg dataSize data tr) !
              Suc (length tr)) ! Suc i =
            ucast (drop_bit (8 * (unat dataSize - i - 1)) data AND 0xFF))"
proof -
  have w: "wire_bytes (snd (ADT7320_WriteRegister h (Some cfg) reg dataSize data tr) !
             Suc (length tr)) = write_command reg # payload_msb_first (unat dataSize) data"
    by (simp add: WriteRegister_valid [OF assms] nth_append length_payload)
  show ?thesis
    unfolding w
    by (simp add: WriteRegister_valid [OF assms] length_payload payload_nth)
qed

theorem write_payload_msb_first_witness:
  "((2::u8) = 1 \<or> (2::u8) = 2) \<and>
   snd (ADT7320_WriteRegister (mock_transport HAL_OK []) (Some example_config) 7 2 0xF600 []) =
     [cs_assert example_config,
      HAL_SPI_Transmit (SPIx example_config) [0x38, 0xF6, 0x00] 3 ADT7320_MAX_DELAY,
      cs_release example_config]"
  using write_payload_msb_first [where dataSize = 2 and h = "mock_transport HAL_OK []"
      and cfg = example_config and reg = 7 and data = "0xF600" and tr = "[]"]
  by (simp add: payload_msb_first_def write_command_byte upt_0_2)

section \<open>Chip-select\<close>

text \<open>
  C6. Whatever the transport reports, the HAL calls of initialization with a valid handle
  are one chip-select window: chip-select asserted, one SPI call, chip-select released.
  The HAL calls of a read and of a write with a valid handle are either none or one such
  window, and they are one window whenever the size is 1 or 2. So chip-select is
  asserted once before the exchange, released once right after it, and never left
  asserted.
\<close>

theorem chip_select_framing:
  "take (length tr) (snd (ADT7320_Init h (Some cfg) tr)) = tr \<and>
   cs_window cfg (drop (length tr) (snd (ADT7320_Init h (Some cfg) tr))) \<and>
   (snd (ADT7320_ReadRegister h (Some cfg) reg dataSize pData tr) = tr \<or>
    take (length tr) (snd (ADT7320_ReadRegister h (Some cfg) reg dataSize pData tr)) = tr \<and>
    cs_window cfg (drop (length tr) (snd (ADT7320_ReadRegister h (Some cfg) reg dataSize pData tr)))) \<and>
   (snd (ADT7320_WriteRegister h (Some cfg) reg dataSize data tr) = tr \<or>
    take (length tr) (snd (ADT7320_WriteRegister h (Some cfg) reg dataSize data tr)) = tr \<and>
    cs_window cfg (drop (length tr) (snd (ADT7320_WriteRegister h (Some cfg) reg dataSize data tr)))) \<and>
   (dataSize = 1 \<or> dataSize = 2 \<longrightarrow>
      cs_window cfg (drop (length tr) (snd (ADT7320_ReadRegister h (Some cfg) reg dataSize pData tr))) \<and>
      cs_window cfg (drop (length tr) (snd (ADT7320_WriteRegister h (Some cfg) reg dataSize data tr))))"
proof (intro conjI impI)
  show "take (length tr) (snd (ADT7320_Init h (Some cfg) tr)) = tr"
    by (simp add: Init_calls)
  show "cs_window cfg (drop (length tr) (snd (ADT7320_Init h (Some cfg) tr)))"
    by (simp add: Init_calls)
  show "snd (ADT7320_ReadRegister h (Some cfg) reg dataSize pData tr) = tr \<or>
    take (length tr) (snd (ADT7320_ReadRegister h (Some cfg) reg dataSize pData tr)) = tr \<and>
    cs_window cfg (drop (length tr) (snd (ADT7320_ReadRegister h (Some cfg) reg dataSize pData tr)))"
    by (simp add: ReadRegister_calls)
  show "snd (ADT7320_WriteRegister h (Some cfg) reg dataSize data tr) = tr \<or>
    take (length tr) (snd (ADT7320_WriteRegister h (Some cfg) reg dataSize data tr)) = tr \<and>
    cs_window cfg (drop (length tr) (snd (ADT7320_WriteRegister h (Some cfg) reg dataSize data tr)))"
    by (simp add: WriteRegister_calls split: sum.split)
next
  assume s: "dataSize = 1 \<or> dataSize = 2"
  then have nz: "dataSize \<noteq> 0" by auto
  show "cs_window cfg (drop (length tr) (snd (ADT7320_ReadRegister h (Some cfg) reg dataSize pData tr)))"
    by (simp add: ReadRegister_calls nz)
  show "cs_window cfg (drop (length tr) (snd (ADT7320_WriteRegister h (Some cfg) reg dataSize data tr)))"
    by (simp add: WriteRegister_valid [OF s])
qed

theorem chip_select_framing_witness:
  "((2::u8) = 1 \<or> (2::u8) = 2) \<and>
   fst (ADT7320_ReadRegister (mock_transport HAL_ERROR []) (Some example_config) 2 2 0 []) =
     Inr (ADT7320_ERROR, 0) \<and>
   cs_window example_config (drop (length ([] :: hal_call list))
     (snd (ADT7320_ReadRegister (mock_transport HAL_ERROR []) (Some example_config) 2 2 0 []))) \<and>
   fst (ADT7320_WriteRegister (mock_transport HAL_ERROR []) (Some example_config) 6 2 0x2300 []) =
     Inr ADT7320_ERROR \<and>
   cs_window example_config (drop (length ([] :: hal_call list))
     (snd (ADT7320_WriteRegister (mock_transport HAL_ERROR []) (Some example_config) 6 2 0x2300 [])))"
proof -
  have size: "(2::u8) = 1 \<or> (2::u8) = 2" by simp
  have r: "fst (ADT7320_ReadRegister (mock_transport HAL_ERROR []) (Some example_config) 2 2 0 []) =
     Inr (ADT7320_ERROR, 0)"
    by (simp add: ReadRegister_size2 mock_transport_def)
  have w: "fst (ADT7320_WriteRegister (mock_transport HAL_ERROR []) (Some example_config) 6 2 0x2300 []) =
     Inr ADT7320_ERROR"
    by (simp add: WriteRegister_size2 mock_transport_def)
  from chip_select_framing [where dataSize = 2 and tr = "[]" and h = "mock_transport HAL_ERROR []"
      and cfg = example_config and reg = 2 and pData = 0, THEN conjunct2, THEN conjunct2,
      THEN conjunct2, THEN conjunct2, rule_format, OF size]
    chip_select_framing [where dataSize = 2 and tr = "[]" and h = "mock_transport HAL_ERROR []"
      and cfg = example_config and reg = 6 and data = "0x2300", THEN conjunct2, THEN conjunct2,
      THEN conjunct2, THEN conjunct2, rule_format, OF size]
    size r w
  show ?thesis by blast
qed

section \<open>Temperature\<close>

text \<open>
  C5. When the read of the temperature register succeeds with raw value \<open>data\<close>, the
  temperature stored is \<open>data\<close> taken as two's complement (\<open>data - 65536\<close>) if bit 15 is
  set and as unsigned otherwise, divided by 128. Raw \<open>0x2300\<close> gives 70 degrees and raw
  \<open>0xF600\<close> gives -20 degrees.
\<close>

theorem temperature_conversion:
  "(fst (ADT7320_ReadRegister h (Some cfg) 2 2 0 tr) = Inr (ADT7320_OK, data) \<longrightarrow>
      fst (ADT7320_ReadTemperature h (Some cfg) pTemperature tr) =
        Inr (ADT7320_OK,
             (if bit data 15 then real_of_int (uint data - 65536) else real_of_int (uint data))
               / 128)) \<and>
   fst (ADT7320_ReadTemperature (mock_transport HAL_OK [c, 0x23, 0x00]) (Some cfg)
          pTemperature tr) = Inr (ADT7320_OK, 70) \<and>
   fst (ADT7320_ReadTemperature (mock_transport HAL_OK [c, 0xF6, 0x00]) (Some cfg)
          pTemperature tr) = Inr (ADT7320_OK, - 20)"
proof (intro conjI impI)
  assume "fst (ADT7320_ReadRegister h (Some cfg) 2 2 0 tr) = Inr (ADT7320_OK, data)"
  then obtain tr' where
    "ADT7320_ReadRegister h (Some cfg) 2 2 0 tr = (Inr (ADT7320_OK, data), tr')"
    by (cases "ADT7320_ReadRegister h (Some cfg) 2 2 0 tr") simp
  then show "fst (ADT7320_ReadTemperature h (Some cfg) pTemperature tr) =
        Inr (ADT7320_OK,
             (if bit data 15 then real_of_int (uint data - 65536) else real_of_int (uint data))
               / 128)"
    by (simp only: ReadTemperature_eq raw_to_celsius_eq) simp
next
  show "fst (ADT7320_ReadTemperature (mock_transport HAL_OK [c, 0x23, 0x00]) (Some cfg)
          pTemperature tr) = Inr (ADT7320_OK, 70)"
    by (simp add: ReadTemperature_eq ReadRegister_size2 mock_transport_def raw_to_celsius_def)
next
  show "fst (ADT7320_ReadTemperature (mock_transport HAL_OK [c, 0xF6, 0x00]) (Some cfg)
          pTemperature tr) = Inr (ADT7320_OK, - 20)"
    by (simp add: ReadTemperature_eq ReadRegister_size2 mock_transport_def raw_to_celsius_def)
qed

theorem temperature_conversion_witness:
  "fst (ADT7320_ReadRegister (mock_transport HAL_OK [0x50, 0xF6, 0x00]) (Some example_config)
          2 2 0 []) = Inr (ADT7320_OK, 0xF600) \<and>
   fst (ADT7320_ReadTemperature (mock_transport HAL_OK [0x50, 0xF6, 0x00]) (Some example_config)
          0 []) = Inr (ADT7320_OK, - 20)"
proof -
  have r: "fst (ADT7320_ReadRegister (mock_transport HAL_OK [0x50, 0xF6, 0x00])
      (Some example_config) 2 2 0 []) = Inr (ADT7320_OK, 0xF600)"
    by (simp add: ReadRegister_size2 mock_transport_def)
  have b: "bit (0xF600 :: u16) 15"
    by (simp add: bit_iff_odd_drop_bit drop_bit_eq_div)
  from temperature_conversion [THEN conjunct1, rule_format, OF r, of 0] r b
  show ?thesis by simp
qed

text \<open>
  C9. With a valid handle, the HAL calls of a temperature read are those of one register
  read at address 2 with size 2: one chip-select window around one exchange of three
  bytes that starts with the command byte \<open>0x50\<close>. When that read returns a status other
  than \<open>ADT7320_OK\<close>, the temperature read returns the same status and the value at
  \<^verbatim>\<open>pTemperature\<close> is the one it held before the call.
\<close>

theorem read_temperature_delegates:
  "snd (ADT7320_ReadTemperature h (Some cfg) pTemperature tr) =
     snd (ADT7320_ReadRegister h (Some cfg) 2 2 0 tr) \<and>
   snd (ADT7320_ReadTemperature h (Some cfg) pTemperature tr) =
     tr @ [cs_assert cfg,
           HAL_SPI_TransmitReceive (SPIx cfg) [0x50, 0, 0] 3 ADT7320_MAX_DELAY,
           cs_release cfg] \<and>
   (fst (ADT7320_ReadRegister h (Some cfg) 2 2 0 tr) = Inr (status, data) \<longrightarrow>
    status \<noteq> ADT7320_OK \<longrightarrow>
      fst (ADT7320_ReadTemperature h (Some cfg) pTemperature tr) = Inr (status, pTemperature))"
proof (intro conjI impI)
  show d: "snd (ADT7320_ReadTemperature h (Some cfg) pTemperature tr) =
     snd (ADT7320_ReadRegister h (Some cfg) 2 2 0 tr)"
    by (simp add: ReadTemperature_eq split: prod.split sum.split)
  have "read_command 2 = 0x50"
    by (simp add: read_command_def ADT7320_READ_def)
  then show "snd (ADT7320_ReadTemperature h (Some cfg) pTemperature tr) =
     tr @ [cs_assert cfg,
           HAL_SPI_TransmitReceive (SPIx cfg) [0x50, 0, 0] 3 ADT7320_MAX_DELAY,
           cs_release cfg]"
    by (simp add: d ReadRegister_size2)
next
  assume "fst (ADT7320_ReadRegister h (Some cfg) 2 2 0 tr) = Inr (status, data)"
    and ne: "status \<noteq> ADT7320_OK"
  then obtain tr' where
    "ADT7320_ReadRegister h (Some cfg) 2 2 0 tr = (Inr (status, data), tr')"
    by (cases "ADT7320_ReadRegister h (Some cfg) 2 2 0 tr") simp
  with ne show "fst (ADT7320_ReadTemperature h (Some cfg) pTemperature tr) =
    Inr (status, pTemperature)"
    by (simp add: ReadTemperature_eq)
qed

theorem read_temperature_delegates_witness:
  "fst (ADT7320_ReadRegister (mock_transport HAL_TIMEOUT []) (Some example_config) 2 2 0 []) =
     Inr (ADT7320_TIMEOUT, 0) \<and>
   ADT7320_TIMEOUT \<noteq> ADT7320_OK \<and>
   fst (ADT7320_ReadTemperature (mock_transport HAL_TIMEOUT []) (Some example_config) 21.5 []) =
     Inr (ADT7320_TIMEOUT, 21.5)"
proof -
  have r: "fst (ADT7320_ReadRegister (mock_transport HAL_TIMEOUT []) (Some example_config) 2 2 0 []) =
     Inr (ADT7320_TIMEOUT, 0)"
    by (simp add: ReadRegister_size2 mock_transport_def)
  have ne: "ADT7320_TIMEOUT \<noteq> ADT7320_OK" by simp
  from read_temperature_delegates [THEN conjunct2, THEN conjunct2, rule_format, OF r ne] r ne
  show ?thesis by blast
qed

end
